theory Spec2Isabelle
  imports Main "HOL-Library.AList"
begin

section \<open>Python strings\<close>

text \<open>
  Strings are lists of characters with code points below 256. The scraper uses
  \<^verbatim>\<open>str.lower\<close>, \<^verbatim>\<open>sub in s\<close>, \<^verbatim>\<open>str.strip\<close> and \<^verbatim>\<open>s.split(' ', 1)\<close>.
\<close>

definition isupper :: "char \<Rightarrow> bool" where
  "isupper c = (let n = (of_char c :: nat)
                in (65 \<le> n \<and> n \<le> 90) \<or> (192 \<le> n \<and> n \<le> 222 \<and> n \<noteq> 215))"

text \<open>
  Lower-casing adds 32 to the code point of an upper-case letter; in both upper-case
  ranges bit 5 is clear, so adding 32 sets that bit.
\<close>

definition lower_char :: "char \<Rightarrow> char" where
  "lower_char c =
     (if isupper c
      then (case c of Char b0 b1 b2 b3 b4 b5 b6 b7 \<Rightarrow> Char b0 b1 b2 b3 b4 True b6 b7)
      else c)"

definition lower :: "string \<Rightarrow> string" where
  "lower s = map lower_char s"

definition isspace :: "char \<Rightarrow> bool" where
  "isspace c = (let n = (of_char c :: nat)
                in (9 \<le> n \<and> n \<le> 13) \<or> (28 \<le> n \<and> n \<le> 32) \<or> n = 133 \<or> n = 160)"

definition strip :: "string \<Rightarrow> string" where
  "strip s = rev (dropWhile isspace (rev (dropWhile isspace s)))"

fun startswith :: "string \<Rightarrow> string \<Rightarrow> bool" where
  "startswith s [] = True"
| "startswith [] (p # ps) = False"
| "startswith (c # cs) (p # ps) = (c = p \<and> startswith cs ps)"

text \<open>\<open>contains s sub\<close> is Python's \<^verbatim>\<open>sub in s\<close>.\<close>

fun contains :: "string \<Rightarrow> string \<Rightarrow> bool" where
  "contains [] sub = (sub = [])"
| "contains (c # cs) sub = (startswith (c # cs) sub \<or> contains cs sub)"

text \<open>\<open>split_once s\<close> is \<^verbatim>\<open>s.split(' ', 1)\<close>: one or two parts, cut at the first space.\<close>

definition split_once :: "string \<Rightarrow> string list" where
  "split_once s =
     (if CHR '' '' \<in> set s
      then [takeWhile (\<lambda>c. c \<noteq> CHR '' '') s, tl (dropWhile (\<lambda>c. c \<noteq> CHR '' '') s)]
      else [s])"

text \<open>Truthiness of an \<^verbatim>\<open>Optional[str]\<close>: \<^verbatim>\<open>None\<close> and the empty string are false.\<close>

definition truthy :: "string option \<Rightarrow> bool" where
  "truthy v = (case v of None \<Rightarrow> False | Some s \<Rightarrow> s \<noteq> [])"


section \<open>Exceptions, the log and the scraper's state\<close>

text \<open>
  \<open>External\<close> is any exception raised inside a library call (requests, selenium,
  \<^verbatim>\<open>open\<close>), carrying its message; the others are raised by the interpreter or the
  csv module on the scraper's own data.
\<close>

datatype exn = External string | AttributeError string | KeyError string | ValueError string

datatype level = INFO | WARNING | ERROR

text \<open>
  A log record keeps the level, the text of the f-string with every placeholder
  written \<^verbatim>\<open>{}\<close>, and the values interpolated there.
\<close>

datatype arg = S string | I int | E exn

type_synonym log_entry = "level \<times> string \<times> arg list"

record webdriver =
  proxy_server :: "string option"
  running :: bool

text \<open>
  The fields of \<^verbatim>\<open>LinkedInScraper\<close> that change. \<^verbatim>\<open>api_key\<close> and \<^verbatim>\<open>proxyscrape_url\<close>
  are constants of the request whose reply is an input of the model. The module's logger is
  carried in the state as the list of records written so far.
\<close>

record scraper =
  consecutive_failures :: nat
  current_proxy :: "string option"
  driver :: "webdriver option"
  log :: "log_entry list"

definition logger :: "level \<Rightarrow> string \<Rightarrow> arg list \<Rightarrow> scraper \<Rightarrow> scraper" where
  "logger lv text args s = s\<lparr>log := log s @ [(lv, text, args)]\<rparr>"


section \<open>The outside world\<close>

text \<open>
  Every call that leaves the process is answered by an input of the model.
  An HTTP request either raises or returns a status code and a body.
  Starting Chrome either works, or \<^verbatim>\<open>webdriver.Chrome(...)\<close> raises, or the new
  browser refuses \<^verbatim>\<open>set_page_load_timeout\<close>. \<^verbatim>\<open>driver.quit()\<close> is taken not to raise.
\<close>

datatype http = Raises string | Response int string

datatype chrome = Started | StartFails string | ConfigFails string

text \<open>
  What one call of \<^verbatim>\<open>get_new_proxy\<close> meets: the provider's reply, the reply of
  \<^verbatim>\<open>httpbin.org/ip\<close> through the proxy under test, and the fate of the browser restart.
\<close>

record rotation =
  provider :: http
  probe :: "string option \<Rightarrow> http"
  chrome :: chrome

record page =
  title :: string
  page_source :: string
  current_url :: string

text \<open>
  A page load through a given browser either raises in \<^verbatim>\<open>driver.get\<close> or in the wait for
  \<^verbatim>\<open>body\<close> (\<open>LoadFails\<close>), or raises later when the title, the source or the URL is read
  (\<open>ReadFails\<close>), or shows a page, taken as one snapshot. \<^verbatim>\<open>time.sleep\<close> has no effect here.
\<close>

datatype fetch = LoadFails string | ReadFails string | Loaded page

record attempt_env =
  load :: "webdriver \<Rightarrow> fetch"
  rot :: rotation

text \<open>
  \<^verbatim>\<open>BeautifulSoup(html, 'html.parser').find(tag, {'class': cls})\<close> followed by \<^verbatim>\<open>.text\<close> is a
  parameter of the model: a function of the page source, the tag and the class giving the
  text of the first such element, if there is one.
\<close>

type_synonym soup = "string \<Rightarrow> string \<Rightarrow> string \<Rightarrow> string option"


section \<open>The scraper\<close>

subsection \<open>\<^verbatim>\<open>__init__\<close> and \<^verbatim>\<open>setup_driver\<close>\<close>

definition setup_driver :: "chrome \<Rightarrow> scraper \<Rightarrow> (exn + unit) \<times> scraper" where
  "setup_driver c s =
     (let s1 = logger INFO ''Setting up Chrome WebDriver'' [] s;
          proxy_arg = (if truthy (current_proxy s1) then current_proxy s1 else None);
          s2 = (case driver s1 of
                  None \<Rightarrow> s1
                | Some d \<Rightarrow> s1\<lparr>driver := Some (d\<lparr>running := False\<rparr>)\<rparr>);
          fresh = \<lparr>proxy_server = proxy_arg, running = True\<rparr>
      in case c of
           StartFails m \<Rightarrow> (Inl (External m), s2)
         | ConfigFails m \<Rightarrow> (Inl (External m), s2\<lparr>driver := Some fresh\<rparr>)
         | Started \<Rightarrow> (Inr (), s2\<lparr>driver := Some fresh\<rparr>))"

text \<open>
  \<^verbatim>\<open>__init__\<close> sets the counters and calls \<^verbatim>\<open>setup_driver\<close>; \<open>init\<close> is the state it
  leaves when the first browser starts.
\<close>

definition init :: scraper where
  "init = snd (setup_driver Started
                 \<lparr>consecutive_failures = 0, current_proxy = None, driver = None, log = []\<rparr>)"

subsection \<open>\<^verbatim>\<open>validate_proxy\<close> and \<^verbatim>\<open>get_new_proxy\<close>\<close>

definition validate_proxy :: "(string option \<Rightarrow> http) \<Rightarrow> scraper \<Rightarrow> bool \<times> scraper" where
  "validate_proxy pr s =
     (case pr (current_proxy s) of
        Response status body \<Rightarrow> (status = 200, s)
      | Raises m \<Rightarrow> (False, logger ERROR ''Proxy validation failed: {}'' [E (External m)] s))"

text \<open>The body of the \<^verbatim>\<open>try\<close> of \<^verbatim>\<open>get_new_proxy\<close>; \<open>Inl\<close> is an exception leaving it.\<close>

definition get_new_proxy_try :: "rotation \<Rightarrow> scraper \<Rightarrow> (exn + bool) \<times> scraper" where
  "get_new_proxy_try r s =
     (let s1 = logger INFO ''Requesting new proxy from ProxyScrape'' [] s
      in case provider r of
           Raises m \<Rightarrow> (Inl (External m), s1)
         | Response status text \<Rightarrow>
             if status = 200 then
               (let proxy = strip text;
                    s2 = logger INFO ''New proxy obtained: {}'' [S proxy] s1;
                    s3 = s2\<lparr>current_proxy := Some proxy\<rparr>;
                    (valid, s4) = validate_proxy (probe r) s3
                in if valid then
                     (case setup_driver (chrome r) s4 of
                        (Inl e, s5) \<Rightarrow> (Inl e, s5)
                      | (Inr u, s5) \<Rightarrow> (Inr True, s5))
                   else (Inr False, logger ERROR ''New proxy is not valid.'' [] s4))
             else (Inr False, logger ERROR ''Failed to get proxy. Status code: {}'' [I status] s1))"

definition get_new_proxy :: "rotation \<Rightarrow> scraper \<Rightarrow> bool \<times> scraper" where
  "get_new_proxy r s =
     (case get_new_proxy_try r s of
        (Inl e, s') \<Rightarrow> (False, logger ERROR ''Error getting new proxy: {}'' [E e] s')
      | (Inr b, s') \<Rightarrow> (b, s'))"


subsection \<open>\<^verbatim>\<open>extract_profile_info\<close>\<close>

text \<open>
  One pass through the body of the \<^verbatim>\<open>while\<close> loop ends in \<^verbatim>\<open>continue\<close> with the new
  value of \<^verbatim>\<open>attempts\<close>, or in \<^verbatim>\<open>return\<close> with the pair the function returns.
\<close>

datatype step = Continue nat | Return "string option \<times> string option"

text \<open>
  The four failure branches of the loop body (lines 112-117, 121-126, 130-135, 148-153)
  are the same statements with a different warning.
\<close>

definition switch_proxy :: "string \<Rightarrow> rotation \<Rightarrow> nat \<Rightarrow> scraper \<Rightarrow> step \<times> scraper" where
  "switch_proxy warning r attempts s =
     (let s1 = logger WARNING warning [] s;
          s2 = s1\<lparr>consecutive_failures := consecutive_failures s1 + 1\<rparr>;
          (ok, s3) = get_new_proxy r s2
      in if ok then (Continue (attempts + 1), s3) else (Return (None, None), s3))"

text \<open>The body of the \<^verbatim>\<open>try\<close> inside the loop.\<close>

definition attempt_try ::
  "soup \<Rightarrow> attempt_env \<Rightarrow> string \<Rightarrow> nat \<Rightarrow> scraper \<Rightarrow> (exn + step) \<times> scraper" where
  "attempt_try parse e profile_url attempts s =
     (let s1 = logger INFO ''Attempting to extract info from: {}'' [S profile_url] s
      in case driver s1 of
           None \<Rightarrow> (Inl (AttributeError ''get''), s1)
         | Some d \<Rightarrow>
             (case load e d of
                LoadFails m \<Rightarrow> (Inl (External m), s1)
              | ReadFails m \<Rightarrow>
                  (Inl (External m), logger INFO ''Page loaded. Pausing for inspection...'' [] s1)
              | Loaded p \<Rightarrow>
                  (let s2 = logger INFO ''Page loaded. Pausing for inspection...'' [] s1
                   in if contains (lower (title p)) ''error''
                         \<or> contains (lower (page_source p)) ''not found'' then
                        apfst Inr (switch_proxy
                          ''Encountered a Chrome error page, switching proxy and retrying''
                          (rot e) attempts s2)
                      else if contains (current_url p) ''login''
                              \<or> contains (current_url p) ''authwall'' then
                        apfst Inr (switch_proxy
                          ''Hit login wall, switching proxy and retrying''
                          (rot e) attempts s2)
                      else if \<not> contains (current_url p) ''linkedin'' then
                        apfst Inr (switch_proxy
                          ''Not on a LinkedIn profile page, switching proxy and retrying''
                          (rot e) attempts s2)
                      else
                        (case (map_option strip (parse (page_source p) ''h1'' ''text-heading-xlarge''),
                               map_option strip (parse (page_source p) ''span'' ''text-body-small'')) of
                           (Some name, Some location) \<Rightarrow>
                             (Inr (Return (Some name, Some location)),
                              (logger INFO ''Successfully extracted - Name: {}, Location: {}''
                                 [S name, S location] s2)\<lparr>consecutive_failures := 0\<rparr>)
                         | (name, location) \<Rightarrow>
                             apfst Inr (switch_proxy
                               ''Name or location extraction returned None, switching proxy and retrying''
                               (rot e) attempts s2)))))"

text \<open>The loop body with its \<^verbatim>\<open>except Exception\<close> handler (lines 159-162).\<close>

definition attempt ::
  "soup \<Rightarrow> attempt_env \<Rightarrow> string \<Rightarrow> nat \<Rightarrow> scraper \<Rightarrow> step \<times> scraper" where
  "attempt parse e profile_url attempts s =
     (case attempt_try parse e profile_url attempts s of
        (Inl ex, s1) \<Rightarrow>
          (let s2 = logger ERROR ''Error extracting profile info: {}'' [E ex] s1;
               s3 = s2\<lparr>consecutive_failures := consecutive_failures s2 + 1\<rparr>
           in (Continue (attempts + 1), s3))
      | (Inr st, s1) \<Rightarrow> (st, s1))"

definition max_attempts :: nat where
  "max_attempts = 5"

text \<open>
  The \<^verbatim>\<open>while\<close> loop. \<open>env 0\<close> is what the world answers during the pass that is
  about to run, \<open>env 1\<close> during the one after it, and so on.
\<close>

function extract_loop ::
  "soup \<Rightarrow> (nat \<Rightarrow> attempt_env) \<Rightarrow> string \<Rightarrow> nat \<Rightarrow> scraper
     \<Rightarrow> (string option \<times> string option) \<times> scraper" where
  "extract_loop parse env profile_url attempts s =
     (if attempts < max_attempts then
        (case attempt parse (env 0) profile_url attempts s of
           (Continue attempts', s') \<Rightarrow>
             extract_loop parse (\<lambda>n. env (Suc n)) profile_url attempts' s'
         | (Return r, s') \<Rightarrow> (r, s'))
      else
        ((None, None),
         logger ERROR ''Max attempts reached. Unable to extract profile info.'' [] s))"
  by pat_completeness auto
termination
proof (relation "measure (\<lambda>(parse, env, profile_url, attempts, s). max_attempts - attempts)")
  show "wf (measure (\<lambda>(parse, env, profile_url, attempts, s). max_attempts - attempts))"
    by simp
next
  fix parse :: soup and env :: "nat \<Rightarrow> attempt_env" and profile_url :: string
    and attempts :: nat and s :: scraper and st :: step and s' :: scraper
    and attempts' :: nat
  assume lt: "attempts < max_attempts"
    and p: "(st, s') = attempt parse (env 0) profile_url attempts s"
    and c: "st = Continue attempts'"
  from p c have "attempt parse (env 0) profile_url attempts s = (Continue attempts', s')"
    by simp
  then have "attempts' = attempts + 1"
    by (auto simp: attempt_def attempt_try_def switch_proxy_def Let_def
             split: prod.splits sum.splits option.splits fetch.splits if_splits)
  with lt show "((parse, \<lambda>n. env (Suc n), profile_url, attempts', s'),
                 (parse, env, profile_url, attempts, s))
                \<in> measure (\<lambda>(parse, env, profile_url, attempts, s). max_attempts - attempts)"
    by simp
qed

declare extract_loop.simps [simp del]

definition extract_profile_info ::
  "soup \<Rightarrow> (nat \<Rightarrow> attempt_env) \<Rightarrow> string \<Rightarrow> scraper
     \<Rightarrow> (string option \<times> string option) \<times> scraper" where
  "extract_profile_info parse env profile_url s = extract_loop parse env profile_url 0 s"

text \<open>
  The configurations in which the loop test at line 96 is evaluated during the call
  \<open>extract_profile_info parse env0 profile_url s0\<close>: the world still to come, the value of
  \<^verbatim>\<open>attempts\<close> and the scraper's state.
\<close>

inductive loop_head ::
  "soup \<Rightarrow> string \<Rightarrow> (nat \<Rightarrow> attempt_env) \<Rightarrow> scraper
     \<Rightarrow> (nat \<Rightarrow> attempt_env) \<Rightarrow> nat \<Rightarrow> scraper \<Rightarrow> bool"
  for parse :: soup and profile_url :: string and env0 :: "nat \<Rightarrow> attempt_env" and s0 :: scraper
where
  enter: "loop_head parse profile_url env0 s0 env0 0 s0"
| again: "loop_head parse profile_url env0 s0 env attempts s \<Longrightarrow>
          attempts < max_attempts \<Longrightarrow>
          attempt parse (env 0) profile_url attempts s = (Continue attempts', s') \<Longrightarrow>
          loop_head parse profile_url env0 s0 (\<lambda>n. env (Suc n)) attempts' s'"


subsection \<open>The CSV file\<close>

text \<open>
  A file is the list of records \<^verbatim>\<open>csv.reader\<close> yields and \<^verbatim>\<open>csv.writer\<close> is given, each
  a list of cells; \<open>None\<close> is a file that cannot be opened. A row of \<^verbatim>\<open>csv.DictReader\<close> is
  a dictionary from column names to cells (\<open>None\<close> for a cell the record is too short to
  have), in insertion order, and the surplus cells of a record longer than the header,
  which the reader stores under the key \<^verbatim>\<open>None\<close>.
\<close>

type_synonym csv = "string list list"

record row =
  items :: "(string \<times> string option) list"
  restkey :: "string list option"

definition read_row :: "string list \<Rightarrow> string list \<Rightarrow> row" where
  "read_row names r =
     (let d = AList.updates names (map Some r) [];
          lf = length names;
          lr = length r
      in if lf < lr then \<lparr>items = d, restkey = Some (drop lf r)\<rparr>
         else if lf > lr then
           \<lparr>items = foldl (\<lambda>d key. AList.update key None d) d (drop lr names), restkey = None\<rparr>
         else \<lparr>items = d, restkey = None\<rparr>)"

text \<open>\<^verbatim>\<open>list(csv.DictReader(file))\<close>: the first record names the columns, empty records are skipped.\<close>

definition dict_reader :: "csv \<Rightarrow> row list" where
  "dict_reader lines =
     (case lines of
        [] \<Rightarrow> []
      | names # records \<Rightarrow> map (read_row names) (filter (\<lambda>r. r \<noteq> []) records))"

definition fieldnames :: "string list" where
  "fieldnames = [''first_name'', ''last_name'', ''geo'', ''prooflink'', ''IP change'']"

text \<open>
  \<^verbatim>\<open>csv.DictWriter.writerow\<close> with the default \<^verbatim>\<open>extrasaction='raise'\<close> and \<^verbatim>\<open>restval=''\<close>:
  a key outside \<open>fieldnames\<close> raises \<^verbatim>\<open>ValueError\<close>; otherwise the cells are written in the
  order of \<open>fieldnames\<close>, a missing key or a \<^verbatim>\<open>None\<close> as the empty string.
\<close>

definition writerow :: "row \<Rightarrow> exn + string list" where
  "writerow d =
     (if restkey d \<noteq> None \<or> \<not> list_all (\<lambda>key. key \<in> set fieldnames) (map fst (items d))
      then Inl (ValueError ''dict contains fields not in fieldnames'')
      else Inr (map (\<lambda>key. case map_of (items d) key of
                              Some (Some v) \<Rightarrow> v
                            | other \<Rightarrow> [])
                    fieldnames))"

text \<open>The cell \<^verbatim>\<open>writerow\<close> writes for a column: \<^verbatim>\<open>d.get(key, '')\<close>, with \<^verbatim>\<open>None\<close> written empty.\<close>

definition cell :: "row \<Rightarrow> string \<Rightarrow> string" where
  "cell d key = (case map_of (items d) key of Some (Some v) \<Rightarrow> v | other \<Rightarrow> [])"

text \<open>\<^verbatim>\<open>rows[0][key] = value\<close>.\<close>

definition setitem :: "string \<Rightarrow> string \<Rightarrow> row \<Rightarrow> row" where
  "setitem key v d = d\<lparr>items := AList.update key (Some v) (items d)\<rparr>"


subsection \<open>\<^verbatim>\<open>process_profiles\<close>\<close>

text \<open>
  What one call of \<^verbatim>\<open>process_profiles\<close> meets: the world of the rotation at line 192,
  should it happen, and the world of each pass of the loop in \<^verbatim>\<open>extract_profile_info\<close>.
\<close>

record run_env =
  proactive :: rotation
  passes :: "nat \<Rightarrow> attempt_env"

text \<open>Lines 189-194: the check made once, before the profile is fetched.\<close>

definition rotate_if_needed :: "rotation \<Rightarrow> row \<Rightarrow> scraper \<Rightarrow> row \<times> scraper" where
  "rotate_if_needed r row0 s =
     (if consecutive_failures s \<ge> 5 then
        (let s1 = logger WARNING ''5 consecutive failures - rotating proxy'' [] s;
             (ok, s2) = get_new_proxy r s1
         in (setitem ''IP change'' ''rotation'' row0, s2\<lparr>consecutive_failures := 0\<rparr>))
      else (row0, s))"

text \<open>Lines 198-204: the extracted fields are stored in the row.\<close>

definition store_result :: "string option \<times> string option \<Rightarrow> row \<Rightarrow> row" where
  "store_result r row0 =
     (let (name, location) = r;
          row1 = (if truthy name then
                    (let name_parts = split_once (the name)
                     in setitem ''last_name''
                          (if length name_parts > 1 then name_parts ! 1 else [])
                          (setitem ''first_name'' (name_parts ! 0) row0))
                  else row0)
      in if truthy location then setitem ''geo'' (the location) row1 else row1)"

text \<open>
  The body of the \<^verbatim>\<open>try\<close> of \<^verbatim>\<open>process_profiles\<close>, on the content of \<^verbatim>\<open>csv_file\<close>. The
  second \<^verbatim>\<open>open\<close> truncates the file and \<^verbatim>\<open>writeheader\<close> writes \<open>fieldnames\<close>; what has
  been written stays when the block is left early or by an exception.
\<close>

definition process_profiles_try ::
  "soup \<Rightarrow> run_env \<Rightarrow> csv option \<Rightarrow> scraper \<Rightarrow> (exn + unit) \<times> csv option \<times> scraper" where
  "process_profiles_try parse env file s =
     (case file of
        None \<Rightarrow> (Inl (External ''No such file or directory''), file, s)
      | Some lines \<Rightarrow>
          (let rows = dict_reader lines;
               file1 = Some [fieldnames]
           in case rows of
                [] \<Rightarrow> (Inr (), file1, s)
              | row0 # others \<Rightarrow>
                  (case map_of (items row0) ''prooflink'' of
                     None \<Rightarrow> (Inl (KeyError ''prooflink''), file1, s)
                   | Some profile_url \<Rightarrow>
                       if \<not> truthy profile_url then
                         (Inr (), file1, logger WARNING ''No profile URL found.'' [] s)
                       else
                         (let s1 = logger INFO ''Processing profile: {}'' [S (the profile_url)] s;
                              (row1, s2) = rotate_if_needed (proactive env) row0 s1;
                              (r, s3) = extract_profile_info parse (passes env) (the profile_url) s2;
                              row2 = store_result r row1
                          in case writerow row2 of
                               Inl e \<Rightarrow> (Inl e, file1, s3)
                             | Inr cells \<Rightarrow> (Inr (), Some [fieldnames, cells], s3)))))"

text \<open>
  \<^verbatim>\<open>process_profiles\<close>: the handler at lines 211-212 logs whatever the body raised, and
  the \<^verbatim>\<open>finally\<close> clause quits the browser. \<open>Inl\<close> in the result would be an exception
  leaving the method.
\<close>

definition process_profiles ::
  "soup \<Rightarrow> run_env \<Rightarrow> csv option \<Rightarrow> scraper \<Rightarrow> (exn + unit) \<times> csv option \<times> scraper" where
  "process_profiles parse env file s =
     (let (r, file', s1) = process_profiles_try parse env file s;
          (r', s2) = (case r of
                        Inl e \<Rightarrow> (Inr (), logger ERROR ''Error processing profiles: {}'' [E e] s1)
                      | Inr u \<Rightarrow> (Inr (), s1));
          s3 = (case driver s2 of
                  None \<Rightarrow> s2
                | Some d \<Rightarrow> s2\<lparr>driver := Some (d\<lparr>running := False\<rparr>)\<rparr>)
      in (r', file', s3))"


text \<open>
  Names for what a call that reaches line 187 passes through: the state after the record
  of line 187, the state in which \<^verbatim>\<open>extract_profile_info\<close> is entered, and the row handed
  to \<^verbatim>\<open>writerow\<close>.
\<close>

definition started :: "string \<Rightarrow> scraper \<Rightarrow> scraper" where
  "started profile_url s = logger INFO ''Processing profile: {}'' [S profile_url] s"

definition target_state :: "run_env \<Rightarrow> string \<Rightarrow> row \<Rightarrow> scraper \<Rightarrow> scraper" where
  "target_state env profile_url row0 s =
     snd (rotate_if_needed (proactive env) row0 (started profile_url s))"

definition row_written :: "soup \<Rightarrow> run_env \<Rightarrow> string \<Rightarrow> row \<Rightarrow> scraper \<Rightarrow> row" where
  "row_written parse env profile_url row0 s =
     store_result
       (fst (extract_profile_info parse (passes env) profile_url
               (target_state env profile_url row0 s)))
       (fst (rotate_if_needed (proactive env) row0 (started profile_url s)))"

text \<open>How often the warning of line 191 has been logged.\<close>

definition rotations_announced :: "scraper \<Rightarrow> nat" where
  "rotations_announced s =
     length (filter (\<lambda>(lv, msg, args). msg = ''5 consecutive failures - rotating proxy'')
               (log s))"


section \<open>The classifier of the specification\<close>

text \<open>
  The specification describes the tests of the loop body as a function
  \<^verbatim>\<open>classify(finalURL, title, pageContent) -> Category\<close>. The source has no such function;
  \<open>classify\<close> below is written from the specification's precedence list, with the markers
  the source tests for, to be compared with \<open>attempt_try\<close>.
\<close>

datatype category = Blocked | WrongDomain | ExtractionFailure | Success

definition error_page_markers :: "string \<Rightarrow> string \<Rightarrow> bool" where
  "error_page_markers ttl content =
     (contains (lower ttl) ''error'' \<or> contains (lower content) ''not found'')"

definition login_markers :: "string \<Rightarrow> bool" where
  "login_markers url = (contains url ''login'' \<or> contains url ''authwall'')"

definition on_expected_domain :: "string \<Rightarrow> bool" where
  "on_expected_domain url = contains url ''linkedin''"

definition required_fields :: "soup \<Rightarrow> string \<Rightarrow> (string \<times> string) option" where
  "required_fields parse content =
     (case (parse content ''h1'' ''text-heading-xlarge'', parse content ''span'' ''text-body-small'') of
        (Some name, Some location) \<Rightarrow> Some (strip name, strip location)
      | other \<Rightarrow> None)"

definition classify :: "soup \<Rightarrow> string \<Rightarrow> string \<Rightarrow> string \<Rightarrow> category" where
  "classify parse url ttl content =
     (if error_page_markers ttl content then Blocked
      else if login_markers url then Blocked
      else if \<not> on_expected_domain url then WrongDomain
      else if required_fields parse content = None then ExtractionFailure
      else Success)"

text \<open>
  The category of one pass of the loop in a given state: \<open>None\<close> when an exception is
  raised before a page is there to classify.
\<close>

definition outcome_category :: "soup \<Rightarrow> attempt_env \<Rightarrow> scraper \<Rightarrow> category option" where
  "outcome_category parse e s =
     (case driver s of
        None \<Rightarrow> None
      | Some d \<Rightarrow>
          (case load e d of
             Loaded p \<Rightarrow> Some (classify parse (current_url p) (title p) (page_source p))
           | other \<Rightarrow> None))"

text \<open>The state in which the tests of the loop body run: two records logged since the pass began.\<close>

definition page_loaded :: "string \<Rightarrow> scraper \<Rightarrow> scraper" where
  "page_loaded profile_url s =
     logger INFO ''Page loaded. Pausing for inspection...'' []
       (logger INFO ''Attempting to extract info from: {}'' [S profile_url] s)"


section \<open>Example worlds\<close>

text \<open>
  Concrete replies, pages, files and runs, used where a general statement is instantiated:
  a provider whose candidate passes the probe, one whose candidate fails it and one that
  answers 503; a profile page, an error page that also lacks the two fields, a login
  wall, a foreign page and a page without the fields; a network on which every page load
  raises; and CSV files with a blank row to fill, a surplus cell, pre-filled fields and an
  empty URL.
\<close>

definition always_ok :: "string option \<Rightarrow> http" where
  "always_ok proxy = Response 200 ''{origin: 10.0.0.1}''"

definition always_refused :: "string option \<Rightarrow> http" where
  "always_refused proxy = Response 503 []"

definition accepting :: rotation where
  "accepting = \<lparr>provider = Response 200 ''10.0.0.1:8080\<newline>'', probe = always_ok,
                 chrome = Started\<rparr>"

definition rejecting :: rotation where
  "rejecting = \<lparr>provider = Response 200 ''10.0.0.1:8080\<newline>'', probe = always_refused,
                 chrome = Started\<rparr>"

definition unavailable :: rotation where
  "unavailable = \<lparr>provider = Response 503 [], probe = always_ok, chrome = Started\<rparr>"

definition load_timeout :: "webdriver \<Rightarrow> fetch" where
  "load_timeout d = LoadFails ''timeout''"

definition network_down :: attempt_env where
  "network_down = \<lparr>load = load_timeout, rot = unavailable\<rparr>"

definition every_pass :: "attempt_env \<Rightarrow> nat \<Rightarrow> attempt_env" where
  "every_pass e n = e"

definition example_url :: string where
  "example_url = ''https://www.linkedin.com/in/jane-doe''"

definition example_soup :: soup where
  "example_soup content tag cls =
     (if contains content ''Jane Doe'' then
        (if tag = ''h1'' \<and> cls = ''text-heading-xlarge'' then Some '' Jane Doe\<newline>''
         else if tag = ''span'' \<and> cls = ''text-body-small'' then Some ''Remote''
         else None)
      else None)"

definition profile_page :: page where
  "profile_page = \<lparr>title = ''Jane Doe | LinkedIn'',
                    page_source = ''<h1> Jane Doe</h1><span>Remote</span>'',
                    current_url = ''https://www.linkedin.com/in/jane-doe''\<rparr>"

definition error_page :: page where
  "error_page = \<lparr>title = ''Error - Page Not Found'',
                  page_source = ''<h1>Not Found</h1>'',
                  current_url = ''https://www.linkedin.com/in/jane-doe''\<rparr>"

definition authwall_page :: page where
  "authwall_page = \<lparr>title = ''Sign Up | LinkedIn'',
                     page_source = ''<form>Join</form>'',
                     current_url = ''https://www.linkedin.com/authwall?trk=x''\<rparr>"

definition offsite_page :: page where
  "offsite_page = \<lparr>title = ''Welcome'',
                    page_source = ''<p>portal</p>'',
                    current_url = ''https://portal.example.net/''\<rparr>"

definition empty_page :: page where
  "empty_page = \<lparr>title = ''LinkedIn'',
                  page_source = ''<div></div>'',
                  current_url = ''https://www.linkedin.com/in/jane-doe''\<rparr>"

definition displays :: "page \<Rightarrow> webdriver \<Rightarrow> fetch" where
  "displays p d = Loaded p"

definition visiting :: "page \<Rightarrow> rotation \<Rightarrow> attempt_env" where
  "visiting p r = \<lparr>load = displays p, rot = r\<rparr>"

text \<open>The scraper after \<open>k\<close> passes of the loop on that network, starting from \<open>init\<close>.\<close>

primrec failed_passes :: "nat \<Rightarrow> scraper" where
  "failed_passes 0 = init"
| "failed_passes (Suc k) =
     snd (attempt example_soup network_down example_url k (failed_passes k))"

definition offline :: run_env where
  "offline = \<lparr>proactive = unavailable, passes = every_pass network_down\<rparr>"

definition example_csv :: csv where
  "example_csv =
     [[''first_name'', ''last_name'', ''geo'', ''prooflink'', ''IP change''],
      [[], [], [], ''https://www.linkedin.com/in/jane-doe'', []],
      [[], [], [], ''https://www.linkedin.com/in/john-roe'', []]]"

definition surplus_csv :: csv where
  "surplus_csv =
     [[''first_name'', ''last_name'', ''geo'', ''prooflink'', ''IP change''],
      [[], [], [], ''https://www.linkedin.com/in/jane-doe'', [], ''x'']]"

definition prefilled_csv :: csv where
  "prefilled_csv =
     [[''first_name'', ''last_name'', ''geo'', ''prooflink'', ''IP change''],
      [''Old'', ''Name'', ''Nowhere'', ''https://www.linkedin.com/in/jane-doe'', []]]"


definition online :: run_env where
  "online = \<lparr>proactive = accepting, passes = every_pass (visiting profile_page accepting)\<rparr>"

text \<open>The first row \<^verbatim>\<open>csv.DictReader\<close> returns for \<open>example_csv\<close>.\<close>

definition jane_row :: row where
  "jane_row = \<lparr>items = [(''first_name'', Some []), (''last_name'', Some []), (''geo'', Some []),
                         (''prooflink'', Some ''https://www.linkedin.com/in/jane-doe''),
                         (''IP change'', Some [])],
                restkey = None\<rparr>"





section \<open>Rotation\<close>

lemma get_new_proxy_failures:
  "consecutive_failures (snd (get_new_proxy r s)) = consecutive_failures s"
proof (cases "provider r")
  case (Raises m)
  then show ?thesis
    by (simp add: get_new_proxy_def get_new_proxy_try_def logger_def Let_def)
next
  case (Response status reply)
  then show ?thesis
    by (cases "probe r (Some (strip reply))"; cases "chrome r"; cases "driver s")
       (simp_all add: get_new_proxy_def get_new_proxy_try_def validate_proxy_def
                      setup_driver_def logger_def Let_def)
qed

lemma get_new_proxy_True:
  assumes "get_new_proxy r s = (True, s')"
  shows "\<exists>reply body. provider r = Response 200 reply
           \<and> probe r (Some (strip reply)) = Response 200 body
           \<and> chrome r = Started
           \<and> current_proxy s' = Some (strip reply)
           \<and> driver s' = Some \<lparr>proxy_server = (if strip reply = [] then None
                                                else Some (strip reply)),
                               running = True\<rparr>"
proof (cases "provider r")
  case (Raises m)
  with assms show ?thesis
    by (simp add: get_new_proxy_def get_new_proxy_try_def logger_def Let_def)
next
  case (Response status reply)
  with assms show ?thesis
    by (cases "probe r (Some (strip reply))"; cases "chrome r"; cases "driver s")
       (auto simp: get_new_proxy_def get_new_proxy_try_def validate_proxy_def
                   setup_driver_def logger_def truthy_def Let_def split: if_splits)
qed




section \<open>One pass of the retry loop\<close>

lemma driver_logger [simp]: "driver (logger lv msg args s) = driver s"
  by (simp add: logger_def)

lemma failures_logger [simp]:
  "consecutive_failures (logger lv msg args s) = consecutive_failures s"
  by (simp add: logger_def)

lemma attempt_try_loaded:
  assumes "driver s = Some d" and "load e d = Loaded p"
  shows "attempt_try parse e profile_url attempts s =
     (if error_page_markers (title p) (page_source p) then
        apfst Inr (switch_proxy ''Encountered a Chrome error page, switching proxy and retrying''
                     (rot e) attempts (page_loaded profile_url s))
      else if login_markers (current_url p) then
        apfst Inr (switch_proxy ''Hit login wall, switching proxy and retrying''
                     (rot e) attempts (page_loaded profile_url s))
      else if \<not> on_expected_domain (current_url p) then
        apfst Inr (switch_proxy ''Not on a LinkedIn profile page, switching proxy and retrying''
                     (rot e) attempts (page_loaded profile_url s))
      else
        (case required_fields parse (page_source p) of
           None \<Rightarrow>
             apfst Inr (switch_proxy
               ''Name or location extraction returned None, switching proxy and retrying''
               (rot e) attempts (page_loaded profile_url s))
         | Some (name, location) \<Rightarrow>
             (Inr (Return (Some name, Some location)),
              (logger INFO ''Successfully extracted - Name: {}, Location: {}''
                 [S name, S location] (page_loaded profile_url s))\<lparr>consecutive_failures := 0\<rparr>)))"
  using assms
  by (simp add: attempt_try_def error_page_markers_def login_markers_def on_expected_domain_def
                required_fields_def page_loaded_def Let_def
           split: option.splits)

lemma attempt_loaded:
  assumes "driver s = Some d" and "load e d = Loaded p"
  shows "attempt parse e profile_url attempts s =
     (if error_page_markers (title p) (page_source p) then
        switch_proxy ''Encountered a Chrome error page, switching proxy and retrying''
          (rot e) attempts (page_loaded profile_url s)
      else if login_markers (current_url p) then
        switch_proxy ''Hit login wall, switching proxy and retrying''
          (rot e) attempts (page_loaded profile_url s)
      else if \<not> on_expected_domain (current_url p) then
        switch_proxy ''Not on a LinkedIn profile page, switching proxy and retrying''
          (rot e) attempts (page_loaded profile_url s)
      else
        (case required_fields parse (page_source p) of
           None \<Rightarrow>
             switch_proxy
               ''Name or location extraction returned None, switching proxy and retrying''
               (rot e) attempts (page_loaded profile_url s)
         | Some (name, location) \<Rightarrow>
             (Return (Some name, Some location),
              (logger INFO ''Successfully extracted - Name: {}, Location: {}''
                 [S name, S location] (page_loaded profile_url s))\<lparr>consecutive_failures := 0\<rparr>)))"
proof -
  have inr: "\<And>x. (case apfst Inr x of
                     (Inl ex, s1) \<Rightarrow>
                       (let s2 = logger ERROR ''Error extracting profile info: {}'' [E ex] s1;
                            s3 = s2\<lparr>consecutive_failures := consecutive_failures s2 + 1\<rparr>
                        in (Continue (attempts + 1), s3))
                   | (Inr st, s1) \<Rightarrow> (st, s1)) = x"
    by (simp add: apfst_def map_prod_def split: prod.splits)
  show ?thesis
    unfolding attempt_def attempt_try_loaded [OF assms]
    by (simp add: inr split: option.splits)
qed

lemma switch_proxy_result:
  "switch_proxy w r attempts s =
     (if fst (get_new_proxy r ((logger WARNING w [] s)\<lparr>consecutive_failures := consecutive_failures s + 1\<rparr>))
      then Continue (attempts + 1) else Return (None, None),
      snd (get_new_proxy r ((logger WARNING w [] s)\<lparr>consecutive_failures := consecutive_failures s + 1\<rparr>)))"
  by (simp add: switch_proxy_def Let_def split: prod.splits)

lemma switch_proxy_failures:
  "consecutive_failures (snd (switch_proxy w r attempts s)) = consecutive_failures s + 1"
  by (simp add: switch_proxy_result get_new_proxy_failures)

lemma switch_proxy_step:
  "fst (switch_proxy w r attempts s) = Continue (attempts + 1)
   \<or> fst (switch_proxy w r attempts s) = Return (None, None)"
  by (simp add: switch_proxy_result)

lemma attempt_exception:
  assumes "outcome_category parse e s = None"
  shows "fst (attempt parse e profile_url attempts s) = Continue (attempts + 1)"
    and "consecutive_failures (snd (attempt parse e profile_url attempts s))
           = consecutive_failures s + 1"
    and "driver (snd (attempt parse e profile_url attempts s)) = driver s"
    and "current_proxy (snd (attempt parse e profile_url attempts s)) = current_proxy s"
    and "\<exists>ex. last (log (snd (attempt parse e profile_url attempts s)))
                 = (ERROR, ''Error extracting profile info: {}'', [E ex])"
proof -
  have "\<exists>ex s1. attempt_try parse e profile_url attempts s = (Inl ex, s1)
           \<and> driver s1 = driver s \<and> current_proxy s1 = current_proxy s
           \<and> consecutive_failures s1 = consecutive_failures s"
  proof (cases "driver s")
    case None
    then show ?thesis
      by (simp add: attempt_try_def logger_def Let_def)
  next
    case (Some d)
    with assms show ?thesis
      by (cases "load e d") (simp_all add: outcome_category_def attempt_try_def logger_def Let_def)
  qed
  then obtain ex s1 where tried: "attempt_try parse e profile_url attempts s = (Inl ex, s1)"
    and same: "driver s1 = driver s" "current_proxy s1 = current_proxy s"
      "consecutive_failures s1 = consecutive_failures s"
    by blast
  from tried have run: "attempt parse e profile_url attempts s =
      (Continue (attempts + 1),
       (logger ERROR ''Error extracting profile info: {}'' [E ex] s1)
         \<lparr>consecutive_failures := consecutive_failures s1 + 1\<rparr>)"
    by (simp add: attempt_def logger_def Let_def)
  show "fst (attempt parse e profile_url attempts s) = Continue (attempts + 1)"
    by (simp add: run)
  show "consecutive_failures (snd (attempt parse e profile_url attempts s))
          = consecutive_failures s + 1"
    by (simp add: run same)
  show "driver (snd (attempt parse e profile_url attempts s)) = driver s"
    by (simp add: run same)
  show "current_proxy (snd (attempt parse e profile_url attempts s)) = current_proxy s"
    by (simp add: run same logger_def)
  show "\<exists>ex. last (log (snd (attempt parse e profile_url attempts s)))
               = (ERROR, ''Error extracting profile info: {}'', [E ex])"
    by (simp add: run logger_def)
qed

lemma attempt_success:
  assumes "outcome_category parse e s = Some Success"
  shows "\<exists>name location. fst (attempt parse e profile_url attempts s)
                            = Return (Some name, Some location)"
    and "consecutive_failures (snd (attempt parse e profile_url attempts s)) = 0"
proof -
  from assms obtain d p where d: "driver s = Some d" and p: "load e d = Loaded p"
    and c: "classify parse (current_url p) (title p) (page_source p) = Success"
    by (auto simp: outcome_category_def split: option.splits fetch.splits)
  from c obtain name location where
    "\<not> error_page_markers (title p) (page_source p)" "\<not> login_markers (current_url p)"
    "on_expected_domain (current_url p)"
    "required_fields parse (page_source p) = Some (name, location)"
    by (auto simp: classify_def split: if_splits)
  then have "attempt parse e profile_url attempts s =
      (Return (Some name, Some location),
       (logger INFO ''Successfully extracted - Name: {}, Location: {}''
          [S name, S location] (page_loaded profile_url s))\<lparr>consecutive_failures := 0\<rparr>)"
    by (simp add: attempt_loaded [OF d p])
  then show "\<exists>name location. fst (attempt parse e profile_url attempts s)
                            = Return (Some name, Some location)"
    and "consecutive_failures (snd (attempt parse e profile_url attempts s)) = 0"
    by simp_all
qed

lemma attempt_failure:
  assumes "outcome_category parse e s = Some c" and "c \<noteq> Success"
  shows "\<exists>w. attempt parse e profile_url attempts s
               = switch_proxy w (rot e) attempts (page_loaded profile_url s)"
proof -
  from assms obtain d p where d: "driver s = Some d" and p: "load e d = Loaded p"
    and c: "classify parse (current_url p) (title p) (page_source p) \<noteq> Success"
    by (auto simp: outcome_category_def split: option.splits fetch.splits)
  from c show ?thesis
    by (auto simp: attempt_loaded [OF d p] classify_def split: if_splits option.splits)
qed

lemma attempt_continue:
  assumes "attempt parse e profile_url attempts s = (Continue attempts', s')"
  shows "attempts' = attempts + 1"
    and "consecutive_failures s' = consecutive_failures s + 1"
proof -
  have "attempts' = attempts + 1 \<and> consecutive_failures s' = consecutive_failures s + 1"
  proof (cases "outcome_category parse e s")
    case None
    from attempt_exception(1,2) [OF None, of profile_url attempts] assms show ?thesis
      by simp
  next
    case (Some c)
    show ?thesis
    proof (cases "c = Success")
      case True
      with Some attempt_success(1) [of parse e s profile_url attempts] assms show ?thesis
        by simp
    next
      case False
      from attempt_failure [OF Some False, of profile_url attempts]
      obtain w where "attempt parse e profile_url attempts s
                        = switch_proxy w (rot e) attempts (page_loaded profile_url s)" ..
      with assms switch_proxy_step [of w "rot e" attempts "page_loaded profile_url s"]
           switch_proxy_failures [of w "rot e" attempts "page_loaded profile_url s"]
      show ?thesis
        by (simp add: page_loaded_def)
    qed
  qed
  then show "attempts' = attempts + 1"
    and "consecutive_failures s' = consecutive_failures s + 1"
    by simp_all
qed

lemma loop_head_bound:
  "loop_head parse profile_url env0 s0 env attempts s \<Longrightarrow> attempts \<le> max_attempts"
proof (induction rule: loop_head.induct)
  case enter
  show ?case by simp
next
  case (again env attempts s attempts' s')
  from attempt_continue(1) [OF again.hyps(3)] again.hyps(2) show ?case
    by simp
qed


lemma loop_head_result:
  "loop_head parse profile_url env0 s0 env attempts s \<Longrightarrow>
   extract_loop parse env profile_url attempts s = extract_profile_info parse env0 profile_url s0"
proof (induction rule: loop_head.induct)
  case enter
  show ?case by (simp add: extract_profile_info_def)
next
  case (again env attempts s attempts' s')
  have "extract_loop parse env profile_url attempts s
          = extract_loop parse (\<lambda>n. env (Suc n)) profile_url attempts' s'"
    using again.hyps(2,3) by (subst extract_loop.simps) simp
  with again.IH show ?case
    by simp
qed

lemmas lower_defs = lower_def lower_char_def isupper_def
lemmas marker_defs = error_page_markers_def login_markers_def on_expected_domain_def
  required_fields_def

lemma profile_page_class:
  "\<not> error_page_markers (title profile_page) (page_source profile_page)"
  "\<not> login_markers (current_url profile_page)"
  "on_expected_domain (current_url profile_page)"
  "required_fields example_soup (page_source profile_page) = Some (''Jane Doe'', ''Remote'')"
  by (simp_all add: marker_defs profile_page_def example_soup_def lower_defs strip_def isspace_def)

lemma error_page_class:
  "error_page_markers (title error_page) (page_source error_page)"
  "required_fields example_soup (page_source error_page) = None"
  by (simp_all add: marker_defs error_page_def example_soup_def lower_defs)

lemma authwall_page_class:
  "\<not> error_page_markers (title authwall_page) (page_source authwall_page)"
  "login_markers (current_url authwall_page)"
  by (simp_all add: marker_defs authwall_page_def lower_defs)

lemma offsite_page_class:
  "\<not> error_page_markers (title offsite_page) (page_source offsite_page)"
  "\<not> login_markers (current_url offsite_page)"
  "\<not> on_expected_domain (current_url offsite_page)"
  by (simp_all add: marker_defs offsite_page_def lower_defs)

lemma empty_page_class:
  "\<not> error_page_markers (title empty_page) (page_source empty_page)"
  "\<not> login_markers (current_url empty_page)"
  "on_expected_domain (current_url empty_page)"
  "required_fields example_soup (page_source empty_page) = None"
  by (simp_all add: marker_defs empty_page_def example_soup_def lower_defs)

lemma driver_init: "driver init = Some \<lparr>proxy_server = None, running = True\<rparr>"
  by (simp add: init_def setup_driver_def logger_def truthy_def Let_def)

lemma failures_init: "consecutive_failures init = 0"
  by (simp add: init_def setup_driver_def logger_def truthy_def Let_def)

lemma network_down_category: "outcome_category parse network_down s = None"
  by (simp add: outcome_category_def network_down_def load_timeout_def split: option.splits)

lemma visiting_category:
  "driver s = Some d \<Longrightarrow>
   outcome_category parse (visiting p r) s
     = Some (classify parse (current_url p) (title p) (page_source p))"
  by (simp add: outcome_category_def visiting_def displays_def)

lemma every_pass_shift: "(\<lambda>n. every_pass e (Suc n)) = every_pass e"
  by (simp add: every_pass_def fun_eq_iff)

lemma failed_passes_reached:
  "k \<le> max_attempts \<Longrightarrow>
   loop_head example_soup example_url (every_pass network_down) init
     (every_pass network_down) k (failed_passes k)"
proof (induction k)
  case 0
  show ?case by (simp add: loop_head.enter)
next
  case (Suc k)
  then have head: "loop_head example_soup example_url (every_pass network_down) init
                     (every_pass network_down) k (failed_passes k)"
    and lt: "k < max_attempts"
    by simp_all
  have "attempt example_soup (every_pass network_down 0) example_url k (failed_passes k)
          = (Continue (Suc k), failed_passes (Suc k))"
    by (simp add: every_pass_def prod_eq_iff attempt_exception(1) network_down_category)
  from loop_head.again [OF head lt this] show ?case
    by (simp add: every_pass_shift)
qed

section \<open>The attempt counter\<close>

text \<open>
  C2: for every world, that is for every sequence of classified failures and exceptions,
  \<^verbatim>\<open>attempts\<close> is at most 5 each time the loop test of \<^verbatim>\<open>extract_profile_info\<close> is
  evaluated, and when it has reached 5 the call gives the target up: it returns
  \<^verbatim>\<open>(None, None)\<close>. That the call returns at all is the termination of \<open>extract_loop\<close>.
\<close>

theorem attempts_never_exceed_max:
  assumes "loop_head parse profile_url env0 s0 env attempts s"
  shows "attempts \<le> 5
       \<and> (attempts = 5 \<longrightarrow>
            fst (extract_profile_info parse env0 profile_url s0) = (None, None))"
proof
  from loop_head_bound [OF assms] show "attempts \<le> 5"
    by (simp add: max_attempts_def)
next
  show "attempts = 5 \<longrightarrow> fst (extract_profile_info parse env0 profile_url s0) = (None, None)"
  proof
    assume five: "attempts = 5"
    have "extract_loop parse env profile_url attempts s
            = ((None, None),
               logger ERROR ''Max attempts reached. Unable to extract profile info.'' [] s)"
      using five by (subst extract_loop.simps) (simp add: max_attempts_def)
    with loop_head_result [OF assms, symmetric]
    show "fst (extract_profile_info parse env0 profile_url s0) = (None, None)"
      by simp
  qed
qed

theorem attempts_never_exceed_max_witness:
  "loop_head example_soup example_url (every_pass network_down) init
     (every_pass network_down) 5 (failed_passes 5)
   \<and> fst (extract_profile_info example_soup (every_pass network_down) example_url init)
       = (None, None)"
proof -
  have head: "loop_head example_soup example_url (every_pass network_down) init
                (every_pass network_down) 5 (failed_passes 5)"
    using failed_passes_reached [of 5] by (simp add: max_attempts_def)
  from attempts_never_exceed_max [OF head] head show ?thesis
    by simp
qed

section \<open>The failure counter\<close>





section \<open>Classification and rotation inside a target\<close>

text \<open>
  C4: the tests of the loop body are the specification's classifier. For every page
  (final URL, title, content) the branch the code takes is decided by \<open>classify\<close>, first
  match first: error-page markers in the title or the content give \<open>Blocked\<close> and the
  error-page branch, whatever else holds; otherwise a login or auth-wall marker in the URL
  gives \<open>Blocked\<close>; otherwise a URL without the expected domain gives \<open>WrongDomain\<close>;
  otherwise a missing name or location gives \<open>ExtractionFailure\<close>; otherwise the category
  is \<open>Success\<close> and the pass returns the two stripped fields. \<open>classify\<close> is a total
  function of its arguments, so each page has exactly one category.
\<close>

theorem classify_decides_the_branch:
  assumes "driver s = Some d" and "load e d = Loaded p"
  shows "(error_page_markers (title p) (page_source p) \<longrightarrow>
            classify parse (current_url p) (title p) (page_source p) = Blocked
          \<and> attempt parse e profile_url a s =
              switch_proxy ''Encountered a Chrome error page, switching proxy and retrying''
                (rot e) a (page_loaded profile_url s))
       \<and> (\<not> error_page_markers (title p) (page_source p) \<and> login_markers (current_url p) \<longrightarrow>
            classify parse (current_url p) (title p) (page_source p) = Blocked
          \<and> attempt parse e profile_url a s =
              switch_proxy ''Hit login wall, switching proxy and retrying''
                (rot e) a (page_loaded profile_url s))
       \<and> (\<not> error_page_markers (title p) (page_source p) \<and> \<not> login_markers (current_url p)
            \<and> \<not> on_expected_domain (current_url p) \<longrightarrow>
            classify parse (current_url p) (title p) (page_source p) = WrongDomain
          \<and> attempt parse e profile_url a s =
              switch_proxy ''Not on a LinkedIn profile page, switching proxy and retrying''
                (rot e) a (page_loaded profile_url s))
       \<and> (\<not> error_page_markers (title p) (page_source p) \<and> \<not> login_markers (current_url p)
            \<and> on_expected_domain (current_url p)
            \<and> required_fields parse (page_source p) = None \<longrightarrow>
            classify parse (current_url p) (title p) (page_source p) = ExtractionFailure
          \<and> attempt parse e profile_url a s =
              switch_proxy
                ''Name or location extraction returned None, switching proxy and retrying''
                (rot e) a (page_loaded profile_url s))
       \<and> (\<forall>name location.
            \<not> error_page_markers (title p) (page_source p) \<and> \<not> login_markers (current_url p)
            \<and> on_expected_domain (current_url p)
            \<and> required_fields parse (page_source p) = Some (name, location) \<longrightarrow>
            classify parse (current_url p) (title p) (page_source p) = Success
          \<and> attempt parse e profile_url a s =
              (Return (Some name, Some location),
               (logger INFO ''Successfully extracted - Name: {}, Location: {}''
                  [S name, S location] (page_loaded profile_url s))
                 \<lparr>consecutive_failures := 0\<rparr>))"
  by (simp add: attempt_loaded [OF assms] classify_def)

theorem classify_decides_the_branch_witness:
  "error_page_markers (title error_page) (page_source error_page)
   \<and> required_fields example_soup (page_source error_page) = None
   \<and> classify example_soup (current_url error_page) (title error_page) (page_source error_page)
       = Blocked
   \<and> classify example_soup (current_url authwall_page) (title authwall_page)
         (page_source authwall_page) = Blocked
   \<and> classify example_soup (current_url offsite_page) (title offsite_page)
         (page_source offsite_page) = WrongDomain
   \<and> classify example_soup (current_url empty_page) (title empty_page)
         (page_source empty_page) = ExtractionFailure
   \<and> classify example_soup (current_url profile_page) (title profile_page)
         (page_source profile_page) = Success
   \<and> fst (attempt example_soup (visiting profile_page accepting) example_url 0 init)
       = Return (Some ''Jane Doe'', Some ''Remote'')"
proof -
  have d: "driver init = Some \<lparr>proxy_server = None, running = True\<rparr>"
    by (rule driver_init)
  have l: "\<And>p. load (visiting p accepting) \<lparr>proxy_server = None, running = True\<rparr> = Loaded p"
    by (simp add: visiting_def displays_def)
  from classify_decides_the_branch [OF d l, of error_page example_soup example_url 0]
       classify_decides_the_branch [OF d l, of authwall_page example_soup example_url 0]
       classify_decides_the_branch [OF d l, of offsite_page example_soup example_url 0]
       classify_decides_the_branch [OF d l, of empty_page example_soup example_url 0]
       classify_decides_the_branch [OF d l, of profile_page example_soup example_url 0]
  show ?thesis
    by (simp add: error_page_class authwall_page_class offsite_page_class empty_page_class
                  profile_page_class)
qed

text \<open>
  C6: after every classified failure (error page, login wall, wrong domain, missing
  fields) the pass calls \<^verbatim>\<open>get_new_proxy\<close> at once, with the failure counted and before
  any other fetch. The next fetch attempt of this target takes place only if that call
  returned \<^verbatim>\<open>True\<close>: the provider answered 200, the candidate passed validation and the
  browser was restarted on it; otherwise the target is given up with \<^verbatim>\<open>(None, None)\<close>.
\<close>

theorem classified_failure_rotates:
  assumes "outcome_category parse e s = Some c" and "c \<noteq> Success"
  shows "(\<exists>w. attempt parse e profile_url a s =
              (if fst (get_new_proxy (rot e)
                        ((logger WARNING w [] (page_loaded profile_url s))
                           \<lparr>consecutive_failures := consecutive_failures s + 1\<rparr>))
               then Continue (a + 1) else Return (None, None),
               snd (get_new_proxy (rot e)
                      ((logger WARNING w [] (page_loaded profile_url s))
                         \<lparr>consecutive_failures := consecutive_failures s + 1\<rparr>))))
       \<and> (\<forall>a' s'. attempt parse e profile_url a s = (Continue a', s') \<longrightarrow>
             (\<exists>reply body. provider (rot e) = Response 200 reply
                \<and> probe (rot e) (Some (strip reply)) = Response 200 body
                \<and> chrome (rot e) = Started
                \<and> current_proxy s' = Some (strip reply)
                \<and> driver s' = Some \<lparr>proxy_server = (if strip reply = [] then None
                                                     else Some (strip reply)),
                                    running = True\<rparr>))"
proof -
  from attempt_failure [OF assms, of profile_url a]
  obtain w where w: "attempt parse e profile_url a s
                       = switch_proxy w (rot e) a (page_loaded profile_url s)" ..
  let ?s1 = "(logger WARNING w [] (page_loaded profile_url s))
               \<lparr>consecutive_failures := consecutive_failures s + 1\<rparr>"
  have run: "attempt parse e profile_url a s =
               (if fst (get_new_proxy (rot e) ?s1) then Continue (a + 1) else Return (None, None),
                snd (get_new_proxy (rot e) ?s1))"
    by (simp add: w switch_proxy_result page_loaded_def)
  have "\<exists>reply body. provider (rot e) = Response 200 reply
                \<and> probe (rot e) (Some (strip reply)) = Response 200 body
                \<and> chrome (rot e) = Started
                \<and> current_proxy s' = Some (strip reply)
                \<and> driver s' = Some \<lparr>proxy_server = (if strip reply = [] then None
                                                     else Some (strip reply)),
                                    running = True\<rparr>"
    if "attempt parse e profile_url a s = (Continue a', s')" for a' s'
  proof -
    from that run have "get_new_proxy (rot e) ?s1 = (True, s')"
      by (auto simp: prod_eq_iff split: if_splits)
    then show ?thesis
      by (rule get_new_proxy_True)
  qed
  with run show ?thesis
    by blast
qed

lemma accepting_rotation:
  "fst (get_new_proxy accepting s)"
  "current_proxy (snd (get_new_proxy accepting s)) = Some ''10.0.0.1:8080''"
  "driver (snd (get_new_proxy accepting s))
     = Some \<lparr>proxy_server = Some ''10.0.0.1:8080'', running = True\<rparr>"
  by (cases "driver s";
      simp add: get_new_proxy_def get_new_proxy_try_def validate_proxy_def setup_driver_def
                logger_def truthy_def always_ok_def accepting_def strip_def isspace_def Let_def)+

lemma rejecting_rotation:
  "\<not> fst (get_new_proxy rejecting s)"
  by (simp add: get_new_proxy_def get_new_proxy_try_def validate_proxy_def
                logger_def always_refused_def rejecting_def Let_def)

theorem classified_failure_rotates_witness:
  "outcome_category example_soup (visiting error_page accepting) init = Some Blocked
   \<and> fst (attempt example_soup (visiting error_page accepting) example_url 0 init) = Continue 1
   \<and> current_proxy (snd (attempt example_soup (visiting error_page accepting) example_url 0 init))
       = Some ''10.0.0.1:8080''
   \<and> driver (snd (attempt example_soup (visiting error_page accepting) example_url 0 init))
       = Some \<lparr>proxy_server = Some ''10.0.0.1:8080'', running = True\<rparr>
   \<and> outcome_category example_soup (visiting error_page rejecting) init = Some Blocked
   \<and> fst (attempt example_soup (visiting error_page rejecting) example_url 0 init)
       = Return (None, None)"
proof -
  have bad: "\<And>r. outcome_category example_soup (visiting error_page r) init = Some Blocked"
    by (simp add: visiting_category driver_init classify_def error_page_class)
  have ne: "Blocked \<noteq> Success"
    by simp
  have rots: "rot (visiting error_page accepting) = accepting"
    "rot (visiting error_page rejecting) = rejecting"
    by (simp_all add: visiting_def)
  from classified_failure_rotates [OF bad ne, of accepting example_url 0]
       classified_failure_rotates [OF bad ne, of rejecting example_url 0] bad
  show ?thesis
    by (auto simp: rots accepting_rotation rejecting_rotation)
qed

section \<open>Exceptions\<close>

lemma no_page_category:
  "\<forall>d p. load e d \<noteq> Loaded p \<Longrightarrow> outcome_category parse e s = None"
  by (cases "driver s") (auto simp: outcome_category_def split: fetch.splits)

lemma extract_loop_all_raise:
  assumes "\<forall>n d p. load (env n) d \<noteq> Loaded p"
    and "max_attempts - attempts = k" and "attempts \<le> max_attempts"
  shows "fst (extract_loop parse env profile_url attempts s) = (None, None)
       \<and> consecutive_failures (snd (extract_loop parse env profile_url attempts s))
           = consecutive_failures s + k"
  using assms
proof (induction k arbitrary: env attempts s)
  case 0
  then have "\<not> attempts < max_attempts"
    by simp
  then show ?case
    by (subst (1 2) extract_loop.simps) simp
next
  case (Suc k)
  then have lt: "attempts < max_attempts"
    by simp
  from Suc.prems(1) have cat: "outcome_category parse (env 0) s = None"
    by (simp add: no_page_category)
  obtain s1 where run: "attempt parse (env 0) profile_url attempts s
                          = (Continue (attempts + 1), s1)"
    using attempt_exception(1) [OF cat, of profile_url attempts]
    by (cases "attempt parse (env 0) profile_url attempts s") auto
  from attempt_exception(2) [OF cat, of profile_url attempts] run
  have s1: "consecutive_failures s1 = consecutive_failures s + 1"
    by simp
  have unfold: "extract_loop parse env profile_url attempts s
                  = extract_loop parse (\<lambda>n. env (Suc n)) profile_url (attempts + 1) s1"
    using lt run by (subst extract_loop.simps) simp
  have "fst (extract_loop parse (\<lambda>n. env (Suc n)) profile_url (attempts + 1) s1) = (None, None)
      \<and> consecutive_failures
           (snd (extract_loop parse (\<lambda>n. env (Suc n)) profile_url (attempts + 1) s1))
          = consecutive_failures s1 + k"
    using Suc.prems lt by (intro Suc.IH) simp_all
  then show ?case
    by (simp add: unfold s1)
qed





section \<open>The output file\<close>

lemma process_profiles_file:
  "fst (snd (process_profiles parse env file s)) = fst (snd (process_profiles_try parse env file s))"
  by (simp add: process_profiles_def Let_def split: prod.splits sum.splits)




lemma process_try_row:
  assumes "dict_reader lines = row0 # others"
    and "map_of (items row0) ''prooflink'' = Some (Some profile_url)" and "profile_url \<noteq> []"
  shows "process_profiles_try parse env (Some lines) s =
     (case writerow (row_written parse env profile_url row0 s) of
        Inl e \<Rightarrow>
          (Inl e, Some [fieldnames],
           snd (extract_profile_info parse (passes env) profile_url
                  (target_state env profile_url row0 s)))
      | Inr cells \<Rightarrow>
          (Inr (), Some [fieldnames, cells],
           snd (extract_profile_info parse (passes env) profile_url
                  (target_state env profile_url row0 s))))"
  using assms
  by (simp add: process_profiles_try_def truthy_def row_written_def target_state_def started_def
                Let_def split: prod.splits sum.splits)


lemma writerow_ok:
  "restkey d = None \<Longrightarrow> list_all (\<lambda>key. key \<in> set fieldnames) (map fst (items d)) \<Longrightarrow>
   writerow d = Inr (map (cell d) fieldnames)"
  by (simp add: writerow_def cell_def)

lemma writerow_surplus: "restkey d \<noteq> None \<Longrightarrow> \<exists>e. writerow d = Inl e"
  by (simp add: writerow_def)

lemma restkey_setitem [simp]: "restkey (setitem key v d) = restkey d"
  by (simp add: setitem_def)

lemma keys_setitem:
  "list_all P (map fst (items (setitem key v d))) = (P key \<and> list_all P (map fst (items d)))"
proof -
  have "set (map fst (items (setitem key v d))) = insert key (set (map fst (items d)))"
    by (simp add: setitem_def dom_update)
  then show ?thesis
    by (simp add: list_all_iff)
qed

lemma cell_setitem: "cell (setitem key v d) k = (if k = key then v else cell d k)"
  by (simp add: cell_def setitem_def update_conv')

lemma restkey_store_result [simp]: "restkey (store_result r d) = restkey d"
  by (cases r) (simp add: store_result_def Let_def)

lemma restkey_rotate [simp]: "restkey (fst (rotate_if_needed r d s)) = restkey d"
  by (simp add: rotate_if_needed_def Let_def split: prod.splits)

lemma keys_store_result:
  "list_all (\<lambda>key. key \<in> set fieldnames) (map fst (items d)) \<Longrightarrow>
   list_all (\<lambda>key. key \<in> set fieldnames) (map fst (items (store_result r d)))"
  by (cases r) (simp add: store_result_def Let_def keys_setitem fieldnames_def)

lemma keys_rotate:
  "list_all (\<lambda>key. key \<in> set fieldnames) (map fst (items d)) \<Longrightarrow>
   list_all (\<lambda>key. key \<in> set fieldnames) (map fst (items (fst (rotate_if_needed r d s))))"
  by (simp add: rotate_if_needed_def Let_def keys_setitem fieldnames_def split: prod.splits)

lemma row_rotate:
  "fst (rotate_if_needed r d s)
     = (if consecutive_failures s \<ge> 5 then setitem ''IP change'' ''rotation'' d else d)"
  by (simp add: rotate_if_needed_def Let_def split: prod.splits)



lemma store_result_none: "store_result (None, None) d = d"
  by (simp add: store_result_def truthy_def)



lemma read_example_csv: "\<exists>others. dict_reader example_csv = jane_row # others"
  by (simp add: dict_reader_def read_row_def example_csv_def jane_row_def Let_def)

lemma read_surplus_csv: "dict_reader surplus_csv = [jane_row\<lparr>restkey := Some [''x'']\<rparr>]"
  by (simp add: dict_reader_def read_row_def surplus_csv_def jane_row_def Let_def)

lemma read_prefilled_csv:
  "dict_reader prefilled_csv =
     [\<lparr>items = [(''first_name'', Some ''Old''), (''last_name'', Some ''Name''),
                (''geo'', Some ''Nowhere''),
                (''prooflink'', Some ''https://www.linkedin.com/in/jane-doe''),
                (''IP change'', Some [])],
       restkey = None\<rparr>]"
  by (simp add: dict_reader_def read_row_def prefilled_csv_def Let_def)


lemma jane_row_facts:
  "map_of (items jane_row) ''prooflink'' = Some (Some example_url)"
  "example_url \<noteq> []"
  "restkey jane_row = None"
  "list_all (\<lambda>key. key \<in> set fieldnames) (map fst (items jane_row))"
  "cell jane_row ''IP change'' = []"
  by (simp_all add: jane_row_def example_url_def fieldnames_def cell_def)

lemma loop_head_return:
  assumes "loop_head parse profile_url env0 s0 env attempts s" and "attempts < max_attempts"
    and "attempt parse (env 0) profile_url attempts s = (Return r, s')"
  shows "extract_profile_info parse env0 profile_url s0 = (r, s')"
proof -
  have "extract_loop parse env profile_url attempts s = (r, s')"
    using assms(2,3) by (subst extract_loop.simps) simp
  with loop_head_result [OF assms(1)] show ?thesis
    by simp
qed

lemma target_state_below:
  "consecutive_failures s < 5 \<Longrightarrow> target_state env profile_url row0 s = started profile_url s"
  by (simp add: target_state_def rotate_if_needed_def started_def)

lemma online_extract:
  assumes "driver s = Some d"
  shows "fst (extract_profile_info example_soup (passes online) profile_url s)
           = (Some ''Jane Doe'', Some ''Remote'')"
proof -
  have l: "load (passes online 0) d = Loaded profile_page"
    by (simp add: online_def every_pass_def visiting_def displays_def)
  have "fst (attempt example_soup (passes online 0) profile_url 0 s)
          = Return (Some ''Jane Doe'', Some ''Remote'')"
    by (simp add: attempt_loaded [OF assms l] profile_page_class)
  then have "attempt example_soup (passes online 0) profile_url 0 s
          = (Return (Some ''Jane Doe'', Some ''Remote''),
             snd (attempt example_soup (passes online 0) profile_url 0 s))"
    by (simp add: prod_eq_iff)
  moreover have "loop_head example_soup profile_url (passes online) s (passes online) 0 s"
    by (rule loop_head.enter)
  moreover have "0 < max_attempts"
    by (simp add: max_attempts_def)
  ultimately have "extract_profile_info example_soup (passes online) profile_url s
          = ((Some ''Jane Doe'', Some ''Remote''),
             snd (attempt example_soup (passes online 0) profile_url 0 s))"
    by (intro loop_head_return [where env = "passes online" and attempts = 0 and s = s])
  then show ?thesis
    by simp
qed



lemma keys_store_result_iff:
  "list_all (\<lambda>key. key \<in> set fieldnames) (map fst (items (store_result r d)))
     = list_all (\<lambda>key. key \<in> set fieldnames) (map fst (items d))"
  by (cases r) (simp add: store_result_def Let_def keys_setitem fieldnames_def)

lemma keys_rotate_iff:
  "list_all (\<lambda>key. key \<in> set fieldnames) (map fst (items (fst (rotate_if_needed r d s))))
     = list_all (\<lambda>key. key \<in> set fieldnames) (map fst (items d))"
  by (simp add: row_rotate keys_setitem fieldnames_def)

lemma writerow_row_written:
  "writerow (row_written parse env profile_url row0 s) =
     (if restkey row0 = None \<and> list_all (\<lambda>key. key \<in> set fieldnames) (map fst (items row0))
      then Inr (map (cell (row_written parse env profile_url row0 s)) fieldnames)
      else Inl (ValueError ''dict contains fields not in fieldnames''))"
proof -
  have "restkey (row_written parse env profile_url row0 s) = restkey row0"
    by (simp add: row_written_def)
  moreover have "list_all (\<lambda>key. key \<in> set fieldnames)
                   (map fst (items (row_written parse env profile_url row0 s)))
                 = list_all (\<lambda>key. key \<in> set fieldnames) (map fst (items row0))"
    by (simp add: row_written_def keys_store_result_iff keys_rotate_iff)
  ultimately show ?thesis
    by (simp add: writerow_def cell_def)
qed


lemma offline_extract:
  "fst (extract_profile_info parse (passes offline) profile_url s) = (None, None)"
proof -
  have "\<forall>n d p. load (passes offline n) d \<noteq> Loaded p"
    by (simp add: offline_def every_pass_def network_down_def load_timeout_def)
  from extract_loop_all_raise [OF this, of 0 5 parse profile_url s] show ?thesis
    by (simp add: extract_profile_info_def max_attempts_def)
qed

text \<open>
  C7 (as stated): every processed target gets exactly one output row, and an abandoned
  target's \<^verbatim>\<open>first_name\<close>, \<^verbatim>\<open>last_name\<close> and \<^verbatim>\<open>geo\<close> are blank. Both parts fail. A first
  record with one cell more than the header is read with the surplus under the key
  \<^verbatim>\<open>None\<close>; the profile is fetched and extracted, \<^verbatim>\<open>writerow\<close> raises \<^verbatim>\<open>ValueError\<close>, and the
  file is left with the header alone. And a row whose three fields are filled in the input
  keeps them when its target is abandoned.
\<close>

theorem processed_target_without_row:
  "fst (extract_profile_info example_soup (passes online) example_url
          (target_state online example_url (hd (dict_reader surplus_csv)) init))
     = (Some ''Jane Doe'', Some ''Remote'')
   \<and> fst (snd (process_profiles example_soup online (Some surplus_csv) init)) = Some [fieldnames]
   \<and> fst (extract_profile_info example_soup (passes offline) example_url
            (target_state offline example_url (hd (dict_reader prefilled_csv)) init))
       = (None, None)
   \<and> fst (snd (process_profiles example_soup offline (Some prefilled_csv) init))
       = Some [fieldnames, [''Old'', ''Name'', ''Nowhere'', example_url, []]]"
proof -
  let ?surplus = "jane_row\<lparr>restkey := Some [''x'']\<rparr>"
  let ?filled = "\<lparr>items = [(''first_name'', Some ''Old''), (''last_name'', Some ''Name''),
                          (''geo'', Some ''Nowhere''),
                          (''prooflink'', Some ''https://www.linkedin.com/in/jane-doe''),
                          (''IP change'', Some [])],
                 restkey = None\<rparr>"
  have "driver (target_state online example_url ?surplus init) = driver init"
    by (simp add: target_state_below failures_init started_def)
  then have a: "fst (extract_profile_info example_soup (passes online) example_url
                  (target_state online example_url (hd (dict_reader surplus_csv)) init))
                = (Some ''Jane Doe'', Some ''Remote'')"
    by (simp add: read_surplus_csv online_extract driver_init)
  have url: "map_of (items ?surplus) ''prooflink'' = Some (Some example_url)"
    by (simp add: jane_row_def example_url_def)
  have b: "fst (snd (process_profiles example_soup online (Some surplus_csv) init))
             = Some [fieldnames]"
    by (simp add: process_profiles_file
                  process_try_row [OF read_surplus_csv url jane_row_facts(2)]
                  writerow_row_written)
  have url': "map_of (items ?filled) ''prooflink'' = Some (Some example_url)"
    by (simp add: example_url_def)
  have keys: "list_all (\<lambda>key. key \<in> set fieldnames) (map fst (items ?filled))"
    by (simp add: fieldnames_def)
  have row: "row_written example_soup offline example_url ?filled init = ?filled"
    by (simp add: row_written_def offline_extract store_result_none row_rotate started_def
                  failures_init)
  have cells: "map (cell ?filled) fieldnames = [''Old'', ''Name'', ''Nowhere'', example_url, []]"
    by (simp add: fieldnames_def cell_def example_url_def)
  have "writerow (row_written example_soup offline example_url ?filled init)
          = Inr (map (cell (row_written example_soup offline example_url ?filled init)) fieldnames)"
    using keys by (simp only: writerow_row_written) simp
  then have wr: "writerow (row_written example_soup offline example_url ?filled init)
                   = Inr [''Old'', ''Name'', ''Nowhere'', example_url, []]"
    by (simp only: row cells)
  have c: "fst (snd (process_profiles example_soup offline (Some prefilled_csv) init))
             = Some [fieldnames, [''Old'', ''Name'', ''Nowhere'', example_url, []]]"
    by (simp add: process_profiles_file
                  process_try_row [OF read_prefilled_csv url' jane_row_facts(2)] wr)
  from a b c show ?thesis
    by (simp add: offline_extract)
qed

text \<open>
  C7 (amended): for every processed target whose input row has only columns of
  \<open>fieldnames\<close> and no surplus cell, \<^verbatim>\<open>process_profiles\<close> writes exactly one row after
  the header, whether the target succeeded or was abandoned; in the abandoned case the
  cells \<^verbatim>\<open>first_name\<close>, \<^verbatim>\<open>last_name\<close> and \<^verbatim>\<open>geo\<close> are written as they were read, blank when
  they were blank or missing in the input.
\<close>

theorem one_row_per_processed_target:
  assumes "dict_reader lines = row0 # others"
    and "map_of (items row0) ''prooflink'' = Some (Some profile_url)" and "profile_url \<noteq> []"
    and "restkey row0 = None"
    and "list_all (\<lambda>key. key \<in> set fieldnames) (map fst (items row0))"
  shows "\<exists>cells. fst (snd (process_profiles parse env (Some lines) s)) = Some [fieldnames, cells]
           \<and> length cells = 5
           \<and> (fst (extract_profile_info parse (passes env) profile_url
                      (target_state env profile_url row0 s)) = (None, None) \<longrightarrow>
                cells ! 0 = cell row0 ''first_name''
              \<and> cells ! 1 = cell row0 ''last_name''
              \<and> cells ! 2 = cell row0 ''geo'')"
proof -
  let ?cells = "map (cell (row_written parse env profile_url row0 s)) fieldnames"
  have written: "fst (snd (process_profiles parse env (Some lines) s)) = Some [fieldnames, ?cells]"
    using assms(4,5)
    by (simp add: process_profiles_file process_try_row [OF assms(1,2,3)] writerow_row_written)
  have "?cells ! 0 = cell row0 ''first_name'' \<and> ?cells ! 1 = cell row0 ''last_name''
        \<and> ?cells ! 2 = cell row0 ''geo''"
    if "fst (extract_profile_info parse (passes env) profile_url
               (target_state env profile_url row0 s)) = (None, None)"
    using that
    by (simp add: row_written_def store_result_none row_rotate cell_setitem fieldnames_def)
  with written show ?thesis
    by (intro exI [of _ ?cells]) (simp add: fieldnames_def)
qed

theorem one_row_per_processed_target_witness:
  "(\<exists>others. dict_reader example_csv = jane_row # others)
   \<and> map_of (items jane_row) ''prooflink'' = Some (Some example_url)
   \<and> restkey jane_row = None
   \<and> fst (extract_profile_info example_soup (passes offline) example_url
            (target_state offline example_url jane_row init)) = (None, None)
   \<and> (\<exists>cells. fst (snd (process_profiles example_soup offline (Some example_csv) init))
                  = Some [fieldnames, cells]
         \<and> cells ! 0 = [] \<and> cells ! 1 = [] \<and> cells ! 2 = [])"
proof -
  obtain others where rows: "dict_reader example_csv = jane_row # others"
    using read_example_csv by blast
  have blank: "cell jane_row ''first_name'' = []" "cell jane_row ''last_name'' = []"
    "cell jane_row ''geo'' = []"
    by (simp_all add: cell_def jane_row_def)
  from one_row_per_processed_target [OF rows jane_row_facts(1,2,3,4), of example_soup offline init]
       rows
  show ?thesis
    by (auto simp: offline_extract jane_row_facts blank)
qed



section \<open>Rotation at the start of a target\<close>


lemma announced_update [simp]:
  "rotations_announced (s\<lparr>consecutive_failures := n\<rparr>) = rotations_announced s"
  "rotations_announced (s\<lparr>current_proxy := p\<rparr>) = rotations_announced s"
  "rotations_announced (s\<lparr>driver := d\<rparr>) = rotations_announced s"
  by (simp_all add: rotations_announced_def)



















end
